theory Spec2Isabelle
  imports Main
begin

section \<open>Computations with side effects and raised values\<close>

text \<open>
  The library is a set of higher-order functions: almost every combinator takes a function
  of the caller (\<open>fn\<close>, \<open>predicate\<close>, a handler). Such a function may do anything a
  JavaScript function can do: change state that the caller observes (a call counter, a log),
  create objects, or raise a value with \<open>throw\<close> instead of returning. The specification speaks about
  exactly these things ("never invokes fn", "not a newly constructed one", "the raised value
  propagates"), so a computation is a function from the world before to an outcome and the
  world after.

  The world holds the number of objects created so far, which is the address the next object
  literal receives, and a component \<open>store\<close> for everything else the caller's functions read
  and write, the elements of a mutable array they share with the library included. An
  outcome is \<open>Inr v\<close> for a normal return of \<open>v\<close> and \<open>Inl x\<close> for
  \<open>throw x\<close>.

  An \<open>async\<close> function is modelled by the same type: the outcome \<open>Inr v\<close> is a promise
  fulfilled with \<open>v\<close>, \<open>Inl x\<close> a promise rejected with \<open>x\<close> (or a synchronous throw
  inside the \<open>async\<close> body, which JavaScript turns into the same rejection), and
  \<open>await\<close> is sequential composition. A promise that never settles is outside this model,
  and so is any other task that runs while an \<open>async\<close> function is suspended.
\<close>

record 's world =
  allocated :: nat
  store :: 's

type_synonym ('s, 'x, 'a) comp = "'s world \<Rightarrow> ('x + 'a) \<times> 's world"

definition returns :: "'a \<Rightarrow> ('s, 'x, 'a) comp" where
  "returns v w = (Inr v, w)"

definition throw :: "'x \<Rightarrow> ('s, 'x, 'a) comp" where
  "throw x w = (Inl x, w)"

text \<open>
  \<open>and_next m k\<close>: run \<open>m\<close>; if it raised, the raised value and the world it left are the
  outcome and \<open>k\<close> is not run (no combinator of the library has a \<open>try\<close>/\<open>catch\<close>);
  otherwise run \<open>k\<close> on the value, in the world \<open>m\<close> left.
\<close>

definition and_next :: "('s, 'x, 'a) comp \<Rightarrow> ('a \<Rightarrow> ('s, 'x, 'b) comp) \<Rightarrow> ('s, 'x, 'b) comp" where
  "and_next m k w = (case m w of (Inl x, w') \<Rightarrow> (Inl x, w') | (Inr v, w') \<Rightarrow> k v w')"

section \<open>The data model of TurboResponse.ts\<close>

text \<open>
  \<open>Success<T>\<close> and \<open>Fail<T>\<close> are object types with read-only fields. Both have the
  optional \<open>title\<close> and \<open>message\<close>; an optional field that is \<open>undefined\<close> is \<open>None\<close>.
  The field \<open>addr\<close> is not a field of the source: it is the identity of the JavaScript
  object, so that "the same object" and "an equal, newly built object" are different values.
  The \<open>_tag\<close> field is the constructor of \<open>TurboResponse\<close>.

  The type parameter of \<open>Fail<T>\<close> is unused in the source (a Fail holds no \<open>T\<close>), so the
  record has none, and the cast \<open>r as unknown as Fail<R>\<close> is \<open>FailR f\<close> at another result
  type with the very same record \<open>f\<close>. The error is \<open>unknown\<close> in the source: a type
  variable here.
\<close>

record response =
  addr :: nat
  title :: "string option"
  message :: "string option"

record 'a Success = response +
  result :: 'a

record 'e Fail = response +
  error :: 'e
  stackTrace :: "string option"

datatype ('a, 'e) TurboResponse = SuccessR "'a Success" | FailR "'e Fail"

text \<open>
  \<open>success\<close> and \<open>fail\<close> return an object literal: a new object, at the next free
  address, with the arguments stored as they are.
\<close>

definition success :: "'a \<Rightarrow> string option \<Rightarrow> string option \<Rightarrow> ('s, 'x, ('a, 'e) TurboResponse) comp" where
  "success result' title' message' w =
     (Inr (SuccessR \<lparr>addr = allocated w, title = title', message = message', result = result'\<rparr>),
      w\<lparr>allocated := Suc (allocated w)\<rparr>)"

definition fail :: "'e \<Rightarrow> string option \<Rightarrow> string option \<Rightarrow> string option \<Rightarrow> ('s, 'x, ('a, 'e) TurboResponse) comp" where
  "fail error' title' message' stackTrace' w =
     (Inr (FailR \<lparr>addr = allocated w, title = title', message = message',
                  error = error', stackTrace = stackTrace'\<rparr>),
      w\<lparr>allocated := Suc (allocated w)\<rparr>)"

text \<open>
  The type guards test the tag. Where the source tests the tag and then reads a field of the
  narrowed object (\<open>isSuccess(r) ? fn(r.result) : r\<close>), the model writes the \<open>case\<close> on the
  constructor, which does both.
\<close>

definition isSuccess :: "('a, 'e) TurboResponse \<Rightarrow> bool" where
  "isSuccess r = (case r of SuccessR s \<Rightarrow> True | FailR f \<Rightarrow> False)"

definition isFail :: "('a, 'e) TurboResponse \<Rightarrow> bool" where
  "isFail r = (case r of SuccessR s \<Rightarrow> False | FailR f \<Rightarrow> True)"

section \<open>Batch combination: sequence\<close>

text \<open>
  The \<open>for ... of\<close> loop of \<open>sequence\<close>, with the array \<open>results\<close> it pushes to as the
  accumulator. The loop returns from inside at a Fail; after the last element
  \<open>success(results)\<close> is called with no title and no message.
\<close>

primrec sequence_loop :: "('a, 'e) TurboResponse list \<Rightarrow> 'a list \<Rightarrow> ('s, 'x, ('a list, 'e) TurboResponse) comp" where
  "sequence_loop [] results = success results None None"
| "sequence_loop (response # rest) results =
     (case response of
        FailR f \<Rightarrow> returns (FailR f)
      | SuccessR s \<Rightarrow> sequence_loop rest (results @ [result s]))"

definition sequence :: "('a, 'e) TurboResponse list \<Rightarrow> ('s, 'x, ('a list, 'e) TurboResponse) comp" where
  "sequence responses = sequence_loop responses []"

section \<open>Batch combination: traverse\<close>

text \<open>
  \<open>items: T[]\<close> is a reference to a mutable array, and the caller's function can hold the
  same reference: the elements of the array are part of the world, and \<open>fn\<close> may change
  them while \<open>traverse\<close> is suspended in \<open>await fn(item)\<close>. The argument \<open>items\<close> is
  therefore the place of the array in the store: \<open>items (store w)\<close> is the list of its
  elements in the world \<open>w\<close>.

  \<open>for (const item of items)\<close> runs the array iterator, which keeps an index: each step
  compares the index with the length the array has now, ends the loop when it is not
  below, and otherwise reads the element the array has now at the index and moves the index
  on. In the body, a rejection of \<open>await fn(item)\<close> leaves the loop and the function
  (there is no \<open>catch\<close>); a Fail is returned as it is; the result of a Success is pushed
  and the loop goes on, in the world the call left. A function that keeps pushing to the
  array keeps the loop running for ever: the value \<open>None\<close> is a call of \<open>traverse\<close>
  that never settles.
\<close>

partial_function (option) traverse_loop :: "('s \<Rightarrow> 'a list) \<Rightarrow> ('a \<Rightarrow> ('s, 'x, ('r, 'e) TurboResponse) comp)
    \<Rightarrow> nat \<Rightarrow> 'r list \<Rightarrow> 's world \<Rightarrow> (('x + ('r list, 'e) TurboResponse) \<times> 's world) option" where
  "traverse_loop items fn i results w =
     (if i < length (items (store w)) then
        (case fn (items (store w) ! i) w of
           (Inl x, w') \<Rightarrow> Some (Inl x, w')
         | (Inr response, w') \<Rightarrow>
             (case response of
                FailR f \<Rightarrow> Some (Inr (FailR f), w')
              | SuccessR s \<Rightarrow> traverse_loop items fn (Suc i) (results @ [result s]) w'))
      else Some (success results None None w))"

definition traverse :: "('s \<Rightarrow> 'a list) \<Rightarrow> ('a \<Rightarrow> ('s, 'x, ('r, 'e) TurboResponse) comp)
    \<Rightarrow> 's world \<Rightarrow> (('x + ('r list, 'e) TurboResponse) \<times> 's world) option" where
  "traverse items fn w = traverse_loop items fn 0 [] w"

text \<open>
  The first \<open>n\<close> steps of the loop from the iterator index \<open>i\<close>, when each of them finds
  an element at its index and the call on it returns a Success: the results of these calls
  and the world after the last one. It is \<open>None\<close> when one of the \<open>n\<close> steps finds the
  array at its end, or its call raises or returns a Fail.
\<close>

primrec loop_calls :: "('s \<Rightarrow> 'a list) \<Rightarrow> ('a \<Rightarrow> ('s, 'x, ('r, 'e) TurboResponse) comp) \<Rightarrow> nat \<Rightarrow> nat
    \<Rightarrow> 's world \<Rightarrow> ('r list \<times> 's world) option" where
  "loop_calls items fn 0 i w = Some ([], w)"
| "loop_calls items fn (Suc n) i w =
     (if i < length (items (store w)) then
        (case fn (items (store w) ! i) w of
           (Inr (SuccessR s), w') \<Rightarrow>
             (case loop_calls items fn n (Suc i) w' of
                Some (rs, w'') \<Rightarrow> Some (result s # rs, w'')
              | None \<Rightarrow> None)
         | (Inr (FailR f), w') \<Rightarrow> None
         | (Inl x, w') \<Rightarrow> None)
      else None)"


section \<open>Pattern matching: maybeWhen\<close>

text \<open>
  The handlers object: \<open>success\<close> and \<open>fail\<close> are optional properties (an absent one is
  \<open>undefined\<close>, which is falsy; a function is truthy), \<open>orElse\<close> is required. The two
  optional fields take the suffix \<open>_handler\<close> here, their names being those of the two
  constructor functions.
\<close>

record ('a, 'e, 's, 'x, 'r) handlers =
  success_handler :: "('a Success \<Rightarrow> ('s, 'x, 'r) comp) option"
  fail_handler :: "('e Fail \<Rightarrow> ('s, 'x, 'r) comp) option"
  orElse :: "unit \<Rightarrow> ('s, 'x, 'r) comp"

definition maybeWhen :: "('a, 'e) TurboResponse \<Rightarrow> ('a, 'e, 's, 'x, 'r) handlers \<Rightarrow> ('s, 'x, 'r) comp" where
  "maybeWhen response hs =
     (case (response, success_handler hs) of
        (SuccessR s, Some h) \<Rightarrow> h s
      | _ \<Rightarrow>
        (case (response, fail_handler hs) of
           (FailR f, Some h) \<Rightarrow> h f
         | _ \<Rightarrow> orElse hs ()))"

section \<open>Transformation and chaining\<close>

definition mapSuccess :: "('a, 'e) TurboResponse \<Rightarrow> ('a \<Rightarrow> ('s, 'x, 'b) comp) \<Rightarrow> ('s, 'x, ('b, 'e) TurboResponse) comp" where
  "mapSuccess r fn =
     (case r of
        SuccessR s \<Rightarrow> and_next (fn (result s)) (\<lambda>v. success v (title s) (message s))
      | FailR f \<Rightarrow> returns (FailR f))"

definition andThen :: "('a, 'e) TurboResponse \<Rightarrow> ('a \<Rightarrow> ('s, 'x, ('b, 'e) TurboResponse) comp)
    \<Rightarrow> ('s, 'x, ('b, 'e) TurboResponse) comp" where
  "andThen r fn =
     (case r of
        SuccessR s \<Rightarrow> fn (result s)
      | FailR f \<Rightarrow> returns (FailR f))"

text \<open>
  \<open>andThenAsync\<close> awaits the promise of \<open>fn\<close> and returns what it resolved to; the
  \<open>async\<close> function rejects with the reason \<open>fn\<close>'s promise rejected with.
\<close>

definition andThenAsync :: "('a, 'e) TurboResponse \<Rightarrow> ('a \<Rightarrow> ('s, 'x, ('b, 'e) TurboResponse) comp)
    \<Rightarrow> ('s, 'x, ('b, 'e) TurboResponse) comp" where
  "andThenAsync r fn =
     (case r of
        SuccessR s \<Rightarrow> and_next (fn (result s)) returns
      | FailR f \<Rightarrow> returns (FailR f))"

definition mapFail :: "('a, 'e) TurboResponse \<Rightarrow> ('e \<Rightarrow> ('s, 'x, 'e) comp) \<Rightarrow> ('s, 'x, ('a, 'e) TurboResponse) comp" where
  "mapFail r fn =
     (case r of
        FailR f \<Rightarrow> and_next (fn (error f)) (\<lambda>e. fail e (title f) (message f) (stackTrace f))
      | SuccessR s \<Rightarrow> returns r)"

text \<open>
  \<open>unwrap\<close> raises with \<open>throw r.error\<close>: the raised value has the type of the error
  field, and nothing else is built.
\<close>

definition unwrap :: "('a, 'e) TurboResponse \<Rightarrow> ('s, 'e, 'a) comp" where
  "unwrap r =
     (case r of
        SuccessR s \<Rightarrow> returns (result s)
      | FailR f \<Rightarrow> throw (error f))"

definition recover :: "('a, 'e) TurboResponse \<Rightarrow> ('e \<Rightarrow> ('s, 'x, ('a, 'e) TurboResponse) comp)
    \<Rightarrow> ('s, 'x, ('a, 'e) TurboResponse) comp" where
  "recover r fn =
     (case r of
        FailR f \<Rightarrow> fn (error f)
      | SuccessR s \<Rightarrow> returns r)"

definition recoverAsync :: "('a, 'e) TurboResponse \<Rightarrow> ('e \<Rightarrow> ('s, 'x, ('a, 'e) TurboResponse) comp)
    \<Rightarrow> ('s, 'x, ('a, 'e) TurboResponse) comp" where
  "recoverAsync r fn =
     (case r of
        FailR f \<Rightarrow> and_next (fn (error f)) returns
      | SuccessR s \<Rightarrow> returns r)"

text \<open>
  In \<open>ensure\<close> the operator \<open>&&\<close> evaluates \<open>predicate(r.result)\<close> only when
  \<open>isSuccess(r)\<close> holds. The new Fail is built with three arguments, so its stackTrace is
  \<open>undefined\<close>.
\<close>

definition ensure :: "('a, 'e) TurboResponse \<Rightarrow> ('a \<Rightarrow> ('s, 'x, bool) comp) \<Rightarrow> 'e \<Rightarrow> ('s, 'x, ('a, 'e) TurboResponse) comp" where
  "ensure r predicate error' =
     (case r of
        SuccessR s \<Rightarrow>
          and_next (predicate (result s)) (\<lambda>ok.
            if \<not> ok then fail error' (title s) (message s) None else returns r)
      | FailR f \<Rightarrow> returns r)"

section \<open>The exception class TurboException\<close>

text \<open>
  The tests of the getters are against \<open>undefined\<close> and \<open>null\<close>, and the constructor's
  default is the falsy-or \<open>||\<close>, so a field value here is one of \<open>undefined\<close>, \<open>null\<close> or
  a proper value. The fields of the class and of its options object have the names of the
  source with a prefix (\<open>title\<close>, \<open>message\<close>, \<open>error\<close> and \<open>stackTrace\<close> are the fields
  of the responses above). \<open>Error.captureStackTrace\<close> only fills the \<open>stack\<close> property of
  the engine, which no getter reads; it is left out.
\<close>

datatype 'v optional = Undefined | Null | Defined 'v

record 'e TurboExceptionOptions =
  opt_error :: "'e optional"
  opt_title :: "string optional"
  opt_message :: "string optional"
  opt_stackTrace :: "string optional"

record 'e TurboException =
  name :: string
  ex_error :: "'e optional"
  ex_title :: "string optional"
  ex_message :: "string optional"
  ex_stackTrace :: "string optional"

text \<open>JavaScript's truthiness of a string-or-absent value: the empty string is falsy.\<close>

fun truthy :: "string optional \<Rightarrow> bool" where
  "truthy Undefined = False"
| "truthy Null = False"
| "truthy (Defined s) = (s \<noteq> [])"

text \<open>\<open>v || d\<close>: the left operand if it is truthy, else the right one.\<close>

definition or_else :: "string optional \<Rightarrow> string \<Rightarrow> string optional" where
  "or_else v d = (if truthy v then v else Defined d)"

definition new_TurboException :: "'e TurboExceptionOptions \<Rightarrow> 'e TurboException" where
  "new_TurboException options =
     \<lparr>name = ''TurboException'',
      ex_error = opt_error options,
      ex_title = opt_title options,
      ex_message = or_else (opt_message options) ''An error occurred'',
      ex_stackTrace = opt_stackTrace options\<rparr>"

definition hasTitle :: "'e TurboException \<Rightarrow> bool" where
  "hasTitle e = (ex_title e \<noteq> Undefined \<and> ex_title e \<noteq> Null)"

definition hasMessage :: "'e TurboException \<Rightarrow> bool" where
  "hasMessage e = (ex_message e \<noteq> Undefined \<and> ex_message e \<noteq> Null \<and> ex_message e \<noteq> Defined [])"

definition hasError :: "'e TurboException \<Rightarrow> bool" where
  "hasError e = (ex_error e \<noteq> Undefined \<and> ex_error e \<noteq> Null)"

section \<open>Properties of the type guards\<close>

lemma isFail_iff_not_isSuccess: "isFail r = (\<not> isSuccess r)"
  by (cases r) (simp_all add: isFail_def isSuccess_def)

lemma isSuccess_iff: "isSuccess r = (\<exists>s. r = SuccessR s)"
  by (cases r) (simp_all add: isSuccess_def)

lemma isFail_iff: "isFail r = (\<exists>f. r = FailR f)"
  by (cases r) (simp_all add: isFail_def)

section \<open>Properties of sequence\<close>

lemma sequence_loop_all_success:
  "sequence_loop (map SuccessR ss) results = success (results @ map result ss) None None"
  by (induction ss arbitrary: results) simp_all

lemma sequence_loop_first_fail:
  "sequence_loop (map SuccessR ss @ FailR f # rest) results = returns (FailR f)"
  by (induction ss arbitrary: results) simp_all

text \<open>A list of responses either has a first Fail, after Successes only, or has no Fail.\<close>

lemma response_list_shape:
  "(\<exists>ss f rest. rs = map SuccessR ss @ FailR f # rest) \<or> (\<exists>ss. rs = map SuccessR ss)"
proof (induction rs)
  case Nil
  then show ?case by simp
next
  case (Cons r rs)
  show ?case
  proof (cases r)
    case (FailR f)
    then have "r # rs = map SuccessR [] @ FailR f # rs" by simp
    then show ?thesis by (rule_tac disjI1) (intro exI)
  next
    case (SuccessR s)
    from Cons.IH show ?thesis
    proof
      assume "\<exists>ss f rest. rs = map SuccessR ss @ FailR f # rest"
      then obtain ss f rest where "rs = map SuccessR ss @ FailR f # rest" by blast
      with SuccessR have "r # rs = map SuccessR (s # ss) @ FailR f # rest" by simp
      then show ?thesis by (rule_tac disjI1) (intro exI)
    next
      assume "\<exists>ss. rs = map SuccessR ss"
      then obtain ss where "rs = map SuccessR ss" by blast
      with SuccessR have "r # rs = map SuccessR (s # ss)" by simp
      then show ?thesis by (rule_tac disjI2) (intro exI)
    qed
  qed
qed

text \<open>
  Claim C1. \<open>sequence\<close> returns the first Fail of the list: when the elements before it are
  all Successes, the outcome is that Fail object itself (same address, error, title, message
  and stackTrace), whatever follows it, and the world is unchanged, so no object was created.
  A list of Successes only gives what \<open>success\<close> returns for the list of their results in
  input order, and the empty list gives \<open>success([])\<close>. Every list has one of the two shapes.
\<close>

theorem sequence_first_fail_or_all_results:
  "sequence (map SuccessR ss @ FailR f # rest) w = (Inr (FailR f), w)
   \<and> sequence (map SuccessR ss) = success (map result ss) None None
   \<and> sequence [] = success [] None None
   \<and> ((\<exists>ss f rest. responses = map SuccessR ss @ FailR f # rest) \<or> (\<exists>ss. responses = map SuccessR ss))"
  using response_list_shape [of responses]
  by (simp add: sequence_def sequence_loop_first_fail sequence_loop_all_success returns_def)

section \<open>Sequential composition\<close>

lemma and_next_raised: "m w = (Inl x, w') \<Longrightarrow> and_next m k w = (Inl x, w')"
  by (simp add: and_next_def)

lemma and_next_returned: "m w = (Inr v, w') \<Longrightarrow> and_next m k w = k v w'"
  by (simp add: and_next_def)

section \<open>Properties of traverse\<close>

text \<open>
  After steps that all found an element and got a Success, the loop stands at the index
  after them with their results pushed, in the world the last call left.
\<close>

lemma traverse_loop_after_loop_calls:
  "loop_calls items fn n i w = Some (rs, w1) \<Longrightarrow>
   traverse_loop items fn i results w = traverse_loop items fn (i + n) (results @ rs) w1"
proof (induction n arbitrary: i w rs results)
  case 0
  then show ?case by simp
next
  case (Suc n)
  from Suc.prems obtain s w' rs' where
    here: "i < length (items (store w))" and
    call: "fn (items (store w) ! i) w = (Inr (SuccessR s), w')" and
    later: "loop_calls items fn n (Suc i) w' = Some (rs', w1)" and
    rs: "rs = result s # rs'"
    by (auto split: if_splits prod.splits sum.splits TurboResponse.splits option.splits)
  from Suc.IH [OF later]
  have "traverse_loop items fn (Suc i) (results @ [result s]) w'
        = traverse_loop items fn (Suc i + n) ((results @ [result s]) @ rs') w1" .
  with here call rs show ?case
    by (subst traverse_loop.simps) simp
qed

text \<open>One step of the loop, in each of its four cases.\<close>

lemma traverse_loop_raise:
  "i < length (items (store w)) \<Longrightarrow> fn (items (store w) ! i) w = (Inl x, w') \<Longrightarrow>
   traverse_loop items fn i results w = Some (Inl x, w')"
  by (subst traverse_loop.simps) simp



lemma traverse_loop_success:
  "i < length (items (store w)) \<Longrightarrow> fn (items (store w) ! i) w = (Inr (SuccessR s), w') \<Longrightarrow>
   traverse_loop items fn i results w = traverse_loop items fn (Suc i) (results @ [result s]) w'"
  by (subst traverse_loop.simps) simp







section \<open>Properties of the combinators\<close>

text \<open>
  Claim C3. On a Fail, \<open>andThen\<close> and \<open>mapSuccess\<close> return that Fail object itself (same
  address, error, title, message and stackTrace) and leave the world as it is, for every
  \<open>fn\<close>: the outcome does not depend on \<open>fn\<close>, and nothing \<open>fn\<close> would do when called
  (change the world, raise) happens.
\<close>

theorem andThen_mapSuccess_pass_fail_through:
  "andThen (FailR f) fn w = (Inr (FailR f), w)
   \<and> mapSuccess (FailR f) map_fn w = (Inr (FailR f), w)"
  by (simp add: andThen_def mapSuccess_def returns_def)

text \<open>
  Claim C4. \<open>andThen\<close> is associative. \<open>andThen(andThen(r, f), g)\<close> evaluates the inner
  call and then the outer one on its value; in \<open>andThen(r, x => andThen(f(x), g))\<close> the
  function evaluates \<open>f(x)\<close> and then \<open>andThen\<close> on its value. Both are the same
  computation: the same outcome and the same world after, from every world.
\<close>

theorem andThen_associative:
  "and_next (andThen r f) (\<lambda>r'. andThen r' g)
   = andThen r (\<lambda>x. and_next (f x) (\<lambda>r'. andThen r' g))"
proof (cases r)
  case (SuccessR s)
  then show ?thesis by (simp add: andThen_def)
next
  case (FailR e)
  have "and_next (returns (FailR e)) (\<lambda>r'. andThen r' g) = returns (FailR e)"
    by (rule ext) (simp add: and_next_def returns_def andThen_def)
  with FailR show ?thesis by (simp add: andThen_def)
qed

text \<open>
  Claim C5. \<open>unwrap\<close> returns the result of a Success; on a Fail it raises, and the raised
  value is the value of the error field itself, of the error's own type, not an object built
  around it. The world is unchanged in both cases.
\<close>

theorem unwrap_returns_result_or_throws_error:
  "unwrap (SuccessR s) w = (Inr (result s), w)
   \<and> unwrap (FailR f) w = (Inl (error f), w)"
  by (simp add: unwrap_def returns_def throw_def)

text \<open>
  Claim C6. When the caller's function raises in the call a combinator makes, the
  combinator's outcome is that raise: the same raised value, in the world the function left,
  and not a Fail. This holds for \<open>andThen\<close>, \<open>andThenAsync\<close>, \<open>mapSuccess\<close>,
  \<open>mapFail\<close>, \<open>recover\<close>, \<open>recoverAsync\<close>, the predicate of \<open>ensure\<close>, and for
  \<open>traverse\<close> when the call of a step of its loop raises after steps whose calls returned
  Successes, whatever the calls did to the array of items.
\<close>

theorem raised_value_propagates:
  "(fn (result s) w = (Inl x, w') \<longrightarrow> andThen (SuccessR s) fn w = (Inl x, w'))
   \<and> (fn (result s) w = (Inl x, w') \<longrightarrow> andThenAsync (SuccessR s) fn w = (Inl x, w'))
   \<and> (map_fn (result s) w = (Inl x, w') \<longrightarrow> mapSuccess (SuccessR s) map_fn w = (Inl x, w'))
   \<and> (err_fn (error f) w = (Inl x, w') \<longrightarrow> mapFail (FailR f) err_fn w = (Inl x, w'))
   \<and> (rec_fn (error f) w = (Inl x, w') \<longrightarrow> recover (FailR f) rec_fn w = (Inl x, w'))
   \<and> (rec_fn (error f) w = (Inl x, w') \<longrightarrow> recoverAsync (FailR f) rec_fn w = (Inl x, w'))
   \<and> (predicate (result s) w = (Inl x, w') \<longrightarrow> ensure (SuccessR s) predicate e w = (Inl x, w'))
   \<and> (loop_calls items item_fn n 0 v = Some (rs, v1) \<longrightarrow> n < length (items (store v1)) \<longrightarrow>
        item_fn (items (store v1) ! n) v1 = (Inl y, v2) \<longrightarrow>
        traverse items item_fn v = Some (Inl y, v2))"
proof -
  have "traverse items item_fn v = Some (Inl y, v2)"
    if calls: "loop_calls items item_fn n 0 v = Some (rs, v1)"
      and here: "n < length (items (store v1))"
      and item: "item_fn (items (store v1) ! n) v1 = (Inl y, v2)"
  proof -
    from here item have "traverse_loop items item_fn n rs v1 = Some (Inl y, v2)"
      by (rule traverse_loop_raise)
    with traverse_loop_after_loop_calls [OF calls, of "[]"] show ?thesis
      by (simp add: traverse_def)
  qed
  then show ?thesis
    by (simp add: andThen_def andThenAsync_def mapSuccess_def mapFail_def recover_def
        recoverAsync_def ensure_def and_next_raised)
qed

theorem raised_value_propagates_witness:
  "andThen (SuccessR \<lparr>addr = 0, title = None, message = None, result = 5 :: nat\<rparr>)
      ((\<lambda>t. throw ''boom'') :: nat \<Rightarrow> (unit, string, (nat, string) TurboResponse) comp)
      \<lparr>allocated = 1, store = ()\<rparr> = (Inl ''boom'', \<lparr>allocated = 1, store = ()\<rparr>)
   \<and> andThenAsync (SuccessR \<lparr>addr = 0, title = None, message = None, result = 5 :: nat\<rparr>)
      ((\<lambda>t. throw ''boom'') :: nat \<Rightarrow> (unit, string, (nat, string) TurboResponse) comp)
      \<lparr>allocated = 1, store = ()\<rparr> = (Inl ''boom'', \<lparr>allocated = 1, store = ()\<rparr>)
   \<and> mapSuccess (SuccessR \<lparr>addr = 0, title = None, message = None, result = 5 :: nat\<rparr>)
      ((\<lambda>t. throw ''boom'') :: nat \<Rightarrow> (unit, string, nat) comp)
      \<lparr>allocated = 1, store = ()\<rparr>
      = (Inl ''boom'' :: string + (nat, string) TurboResponse, \<lparr>allocated = 1, store = ()\<rparr>)
   \<and> mapFail (FailR \<lparr>addr = 0, title = None, message = None, error = ''e'', stackTrace = None\<rparr>)
      ((\<lambda>t. throw ''boom'') :: string \<Rightarrow> (unit, string, string) comp)
      \<lparr>allocated = 1, store = ()\<rparr>
      = (Inl ''boom'' :: string + (nat, string) TurboResponse, \<lparr>allocated = 1, store = ()\<rparr>)
   \<and> recover (FailR \<lparr>addr = 0, title = None, message = None, error = ''e'', stackTrace = None\<rparr>)
      ((\<lambda>t. throw ''boom'') :: string \<Rightarrow> (unit, string, (nat, string) TurboResponse) comp)
      \<lparr>allocated = 1, store = ()\<rparr> = (Inl ''boom'', \<lparr>allocated = 1, store = ()\<rparr>)
   \<and> recoverAsync (FailR \<lparr>addr = 0, title = None, message = None, error = ''e'', stackTrace = None\<rparr>)
      ((\<lambda>t. throw ''boom'') :: string \<Rightarrow> (unit, string, (nat, string) TurboResponse) comp)
      \<lparr>allocated = 1, store = ()\<rparr> = (Inl ''boom'', \<lparr>allocated = 1, store = ()\<rparr>)
   \<and> ensure (SuccessR \<lparr>addr = 0, title = None, message = None, result = 5 :: nat\<rparr>)
      ((\<lambda>t. throw ''boom'') :: nat \<Rightarrow> (unit, string, bool) comp) ''too young''
      \<lparr>allocated = 1, store = ()\<rparr> = (Inl ''boom'', \<lparr>allocated = 1, store = ()\<rparr>)
   \<and> traverse (\<lambda>array. array)
      ((\<lambda>i. if i = 2 then throw ''boom'' else success i None None)
         :: nat \<Rightarrow> (nat list, string, (nat, string) TurboResponse) comp)
      \<lparr>allocated = 1, store = [1, 2, 3]\<rparr> = Some (Inl ''boom'', \<lparr>allocated = 2, store = [1, 2, 3]\<rparr>)"
  using raised_value_propagates
    [of "(\<lambda>t. throw ''boom'') :: nat \<Rightarrow> (unit, string, (nat, string) TurboResponse) comp"
        "\<lparr>addr = 0, title = None, message = None, result = 5 :: nat\<rparr>"
        "\<lparr>allocated = 1, store = ()\<rparr>" "''boom''" "\<lparr>allocated = 1, store = ()\<rparr>"
        "(\<lambda>t. throw ''boom'') :: nat \<Rightarrow> (unit, string, nat) comp"
        "(\<lambda>t. throw ''boom'') :: string \<Rightarrow> (unit, string, string) comp"
        "\<lparr>addr = 0, title = None, message = None, error = ''e'', stackTrace = None\<rparr>"
        "(\<lambda>t. throw ''boom'') :: string \<Rightarrow> (unit, string, (nat, string) TurboResponse) comp"
        "(\<lambda>t. throw ''boom'') :: nat \<Rightarrow> (unit, string, bool) comp" "''too young''"
        "\<lambda>array. array"
        "(\<lambda>i. if i = 2 then throw ''boom'' else success i None None)
           :: nat \<Rightarrow> (nat list, string, (nat, string) TurboResponse) comp"
        1 "\<lparr>allocated = 1, store = [1, 2, 3]\<rparr>" "[1]" "\<lparr>allocated = 2, store = [1, 2, 3]\<rparr>"
        "''boom''" "\<lparr>allocated = 2, store = [1, 2, 3]\<rparr>"]
  by (simp add: throw_def success_def)

text \<open>
  Claim C7. \<open>maybeWhen\<close> runs the handler supplied for the variant of the response, on the
  whole Success or Fail object, and its outcome is the outcome of \<open>maybeWhen\<close>. When no
  handler is supplied for the variant, \<open>orElse\<close> runs instead, whether or not a handler for
  the other variant is supplied: a Success with a fail handler only goes to \<open>orElse\<close>.
\<close>

theorem maybeWhen_handler_or_else:
  "maybeWhen (SuccessR s) \<lparr>success_handler = Some h, fail_handler = fh, orElse = oe\<rparr> = h s
   \<and> maybeWhen (SuccessR s) \<lparr>success_handler = None, fail_handler = fh, orElse = oe\<rparr> = oe ()
   \<and> maybeWhen (FailR f) \<lparr>success_handler = sh, fail_handler = Some h', orElse = oe\<rparr> = h' f
   \<and> maybeWhen (FailR f) \<lparr>success_handler = sh, fail_handler = None, orElse = oe\<rparr> = oe ()"
  by (simp add: maybeWhen_def split: option.splits)

text \<open>
  Claim C8. On a Success whose result the predicate rejects, \<open>ensure\<close> returns a new Fail
  (at the next free address) with the given error, the title and message of the Success and
  no stackTrace. On a Success whose result the predicate accepts it returns that Success
  object, and on a Fail that Fail object, and then no object is created. On a Fail the world
  is unchanged whatever the predicate is: the predicate is not evaluated.
\<close>

theorem ensure_new_fail_or_unchanged:
  "(predicate (result s) w = (Inr False, w1) \<longrightarrow>
      ensure (SuccessR s) predicate e w
      = (Inr (FailR \<lparr>addr = allocated w1, title = title s, message = message s,
                     error = e, stackTrace = None\<rparr>),
         w1\<lparr>allocated := Suc (allocated w1)\<rparr>))
   \<and> (predicate (result s') w' = (Inr True, w1') \<longrightarrow>
      ensure (SuccessR s') predicate e w' = (Inr (SuccessR s'), w1'))
   \<and> ensure (FailR f) predicate e w = (Inr (FailR f), w)"
  by (simp add: ensure_def and_next_def returns_def fail_def)

theorem ensure_new_fail_or_unchanged_witness:
  "ensure (SuccessR \<lparr>addr = 0, title = Some ''Age'', message = Some ''checked'', result = 10 :: nat\<rparr>)
      (\<lambda>x. returns (18 \<le> x)) ''too young'' \<lparr>allocated = 1, store = ()\<rparr>
    = (Inr (FailR \<lparr>addr = 1, title = Some ''Age'', message = Some ''checked'',
                   error = ''too young'', stackTrace = None\<rparr>)
         :: string + (nat, string) TurboResponse,
       \<lparr>allocated = 2, store = ()\<rparr>)
   \<and> ensure (SuccessR \<lparr>addr = 0, title = Some ''Age'', message = Some ''checked'', result = 20 :: nat\<rparr>)
      (\<lambda>x. returns (18 \<le> x)) ''too young'' \<lparr>allocated = 1, store = ()\<rparr>
    = (Inr (SuccessR \<lparr>addr = 0, title = Some ''Age'', message = Some ''checked'', result = 20\<rparr>)
         :: string + (nat, string) TurboResponse,
       \<lparr>allocated = 1, store = ()\<rparr>)"
  using ensure_new_fail_or_unchanged
    [of "(\<lambda>x. returns (18 \<le> x)) :: nat \<Rightarrow> (unit, string, bool) comp"
        "\<lparr>addr = 0, title = Some ''Age'', message = Some ''checked'', result = 10 :: nat\<rparr>"
        "\<lparr>allocated = 1, store = ()\<rparr>" "\<lparr>allocated = 1, store = ()\<rparr>" "''too young''"
        "\<lparr>addr = 0, title = Some ''Age'', message = Some ''checked'', result = 20 :: nat\<rparr>"
        "\<lparr>allocated = 1, store = ()\<rparr>" "\<lparr>allocated = 1, store = ()\<rparr>"]
  by (simp add: returns_def)

section \<open>Properties of TurboException\<close>

lemma set_iff_Defined: "(v \<noteq> Undefined \<and> v \<noteq> Null) = (\<exists>d. v = Defined d)"
  by (cases v) simp_all

lemma nonempty_iff_Defined:
  "(v \<noteq> Undefined \<and> v \<noteq> Null \<and> v \<noteq> Defined []) = (\<exists>m. v = Defined m \<and> m \<noteq> [])"
  by (cases v) simp_all

lemma or_else_nonempty:
  "d \<noteq> [] \<Longrightarrow> or_else v d \<noteq> Undefined \<and> or_else v d \<noteq> Null \<and> or_else v d \<noteq> Defined []"
  by (cases v) (simp_all add: or_else_def)

text \<open>
  Claim C9. Constructed with no message (the option is \<open>undefined\<close>), a TurboException
  stores the text "An error occurred", so \<open>hasMessage\<close> holds for it. For every instance,
  \<open>hasTitle\<close> holds just when the title is a proper value (neither \<open>undefined\<close> nor
  \<open>null\<close>), \<open>hasError\<close> just when the error is one, and \<open>hasMessage\<close> just when the
  stored message is a proper value and not the empty string.
\<close>

theorem TurboException_default_message_and_queries:
  "ex_message (new_TurboException (options\<lparr>opt_message := Undefined\<rparr>)) = Defined ''An error occurred''
   \<and> hasMessage (new_TurboException (options\<lparr>opt_message := Undefined\<rparr>))
   \<and> hasTitle ex = (\<exists>t. ex_title ex = Defined t)
   \<and> hasError ex = (\<exists>v. ex_error ex = Defined v)
   \<and> hasMessage ex = (\<exists>m. ex_message ex = Defined m \<and> m \<noteq> [])"
  by (simp add: new_TurboException_def or_else_def hasMessage_def hasTitle_def hasError_def
      set_iff_Defined nonempty_iff_Defined)

text \<open>
  Claim C10. Constructed with the empty string as message, a TurboException stores
  "An error occurred", not the empty string; and \<open>hasMessage\<close> holds for the exception the
  constructor builds from any options.
\<close>

theorem TurboException_always_has_message:
  "ex_message (new_TurboException (options\<lparr>opt_message := Defined []\<rparr>)) = Defined ''An error occurred''
   \<and> hasMessage (new_TurboException options')"
  using or_else_nonempty [of "''An error occurred''" "opt_message options'"]
  by (simp add: new_TurboException_def hasMessage_def) (simp add: or_else_def)

end
